theory Spec2Isabelle
  imports Main
begin

section \<open>Values of the Go program\<close>

text \<open>
  An \<open>os.Signal\<close> is an interface value. The values that reach the package are the nil
  interface (the test suite calls \<open>NewHandlers(nil)\<close>), a \<open>syscall.Signal\<close> number, and
  the package's own sentinel \<open>anySignal\<close> of the unexported type \<open>_anySignal\<close>, which is
  stored in the same map as the real signals.
\<close>

datatype os_Signal = nil_Signal | syscall_Signal int | anySignal

definition SIGINT :: os_Signal where
  "SIGINT = syscall_Signal 2"

definition SIGTERM :: os_Signal where
  "SIGTERM = syscall_Signal 15"

definition SIGUSR1 :: os_Signal where
  "SIGUSR1 = syscall_Signal 10"

definition SIGUSR2 :: os_Signal where
  "SIGUSR2 = syscall_Signal 12"

text \<open>\<open>var DefaultTerminationSignals = []os.Signal{syscall.SIGTERM, syscall.SIGINT}\<close>\<close>

definition DefaultTerminationSignals :: "os_Signal list" where
  "DefaultTerminationSignals = [SIGTERM, SIGINT]"

text \<open>
  A Go \<open>error\<close> is an interface value as well: \<open>None\<close> is the nil error, \<open>Some e\<close> a value
  of some dynamic type. The package declares one dynamic type,
  \<open>type errorWithExitCode struct { error; exitCode int }\<close>, whose embedded field is again
  an interface value. Every other dynamic type (\<open>io.EOF\<close>, the result of \<open>errors.New\<close>, a
  pointer to the struct, ...) is \<open>plainError\<close> with its message. Exit codes are Go
  \<open>int\<close>s; the package only stores them and compares them with \<open>0\<close>, so they are
  modelled by \<open>int\<close>.
\<close>

datatype error = plainError string | errorWithExitCode "error option" int

definition io_EOF :: error where
  "io_EOF = plainError ''EOF''"

text \<open>
  \<open>func getCodeFromError(e error, def int) int\<close>: the type assertion
  \<open>e.(errorWithExitCode)\<close> succeeds exactly when the dynamic type of \<open>e\<close> is the struct.
\<close>

fun getCodeFromError :: "error option \<Rightarrow> int \<Rightarrow> int" where
  "getCodeFromError (Some (errorWithExitCode inner exitCode)) def = exitCode"
| "getCodeFromError e def = def"

text \<open>\<open>func WrapErrorWithCode(e error, code int) error\<close>\<close>

definition WrapErrorWithCode :: "error option \<Rightarrow> int \<Rightarrow> error option" where
  "WrapErrorWithCode e code = (if e = None then None else Some (errorWithExitCode e code))"

section \<open>Callbacks, logger and the Handlers aggregate\<close>

text \<open>
  Everything outside the package that a call can change (the output of the logging
  sink, the variables captured by the callbacks, the exit status) is one value \<open>'w\<close>,
  the world, passed through every call. A callback of the client and a logger method
  are modelled by what they do to the world when they return; callbacks that panic,
  block, end the process or call back into the same \<open>Handlers\<close> are outside the model.
  The model is sequential: every operation runs alone from start to end, so
  \<open>globalLock\<close> is left out.
\<close>

text \<open>The variadic \<open>...interface{}\<close> arguments the package passes to the logger.\<close>

datatype arg = Str string | Sig os_Signal | Err error

text \<open>\<open>type Logger interface { Info(...interface{}); Debug(...interface{}) }\<close>\<close>

record 'w Logger =
  Info :: "arg list \<Rightarrow> 'w \<Rightarrow> 'w"
  Debug :: "arg list \<Rightarrow> 'w \<Rightarrow> 'w"

text \<open>
  \<open>stdLogger\<close>: \<open>Debug\<close> does nothing, \<open>Info\<close> calls \<open>log.Println\<close>, a function of Go's
  standard library, taken as a parameter.
\<close>

definition stdLogger :: "(arg list \<Rightarrow> 'w \<Rightarrow> 'w) \<Rightarrow> 'w Logger" where
  "stdLogger log_Println = \<lparr>Info = log_Println, Debug = (\<lambda>args w. w)\<rparr>"

text \<open>\<open>type TerminationFunc func(os.Signal) error\<close>\<close>

type_synonym 'w TerminationFunc = "os_Signal \<Rightarrow> 'w \<Rightarrow> error option \<times> 'w"

text \<open>\<open>func NewTerminationFunc(fn func()) TerminationFunc\<close>\<close>

definition NewTerminationFunc :: "('w \<Rightarrow> 'w) \<Rightarrow> 'w TerminationFunc" where
  "NewTerminationFunc f = (\<lambda>sig w. (None, f w))"

record 'w terminationProcedure =
  fn :: "'w TerminationFunc"
  message :: string

text \<open>
  \<open>type HandlerFunc func(os.Signal)\<close>. The registry holds two kinds of function values:
  functions of the client, and the method value \<open>s.handleTerminationSignals\<close> that
  \<open>NewHandlers\<close> installs, which reads the fields of \<open>s\<close> at the time it is called.
\<close>

datatype 'w HandlerFunc = Func "os_Signal \<Rightarrow> 'w \<Rightarrow> 'w" | handleTerminationSignals_value

text \<open>The run-time panics the package can raise.\<close>

datatype panic = nil_pointer_dereference | close_of_closed_channel

text \<open>
  The two ways in which a dispatch stops before its last statement: a panic, or a call
  of \<open>os.Exit(code)\<close>, which ends the process with that status in the world reached so
  far; no statement after it runs.
\<close>

datatype 'w stopped = panicked panic | exited int 'w

text \<open>
  The field \<open>exit\<close> of \<open>Handlers\<close> holds a \<open>func(int)\<close>. \<open>NewHandlers\<close> puts \<open>os.Exit\<close> there, which
  never returns; the tests of the package replace it through the unexported \<open>setExit\<close>
  by functions that return. An exit function therefore either stops the dispatch or
  returns a world.
\<close>

definition os_Exit :: "int \<Rightarrow> 'w \<Rightarrow> 'w stopped + 'w" where
  "os_Exit code w = Inl (exited code w)"

text \<open>
  \<open>type Handlers struct\<close>. The field \<open>log\<close> is an interface value, \<open>None\<close> when nil.
\<close>

record 'w Handlers =
  log :: "'w Logger option"
  exit :: "int \<Rightarrow> 'w \<Rightarrow> 'w stopped + 'w"
  handlers :: "os_Signal \<Rightarrow> 'w HandlerFunc list option"
  terminationSignals :: "os_Signal list"
  terminationProcedures :: "'w terminationProcedure list"

text \<open>Sequencing of calls that may stop.\<close>

definition and_then :: "'e + 'a \<Rightarrow> ('a \<Rightarrow> 'e + 'b) \<Rightarrow> 'e + 'b" where
  "and_then m f = (case m of Inl p \<Rightarrow> Inl p | Inr a \<Rightarrow> f a)"

text \<open>
  \<open>s.log.Info(...)\<close> and \<open>s.log.Debug(...)\<close>: a method call on a nil interface value
  panics.
\<close>

definition log_Info :: "'w Handlers \<Rightarrow> arg list \<Rightarrow> 'w \<Rightarrow> panic + 'w" where
  "log_Info s args w =
     (case log s of None \<Rightarrow> Inl nil_pointer_dereference | Some l \<Rightarrow> Inr (Info l args w))"

definition log_Debug :: "'w Handlers \<Rightarrow> arg list \<Rightarrow> 'w \<Rightarrow> panic + 'w" where
  "log_Debug s args w =
     (case log s of None \<Rightarrow> Inl nil_pointer_dereference | Some l \<Rightarrow> Inr (Debug l args w))"

text \<open>
  The index expression \<open>s.handlers[sig]\<close>: a missing key gives the nil slice, which has
  no elements.
\<close>

definition index_handlers :: "'w Handlers \<Rightarrow> os_Signal \<Rightarrow> 'w HandlerFunc list" where
  "index_handlers s sig = (case handlers s sig of None \<Rightarrow> [] | Some hs \<Rightarrow> hs)"

text \<open>
  \<open>func (s *Handlers) RegisterSignalHandler(handler HandlerFunc, signals ...os.Signal)\<close>.
  \<open>register_each\<close> is its loop \<open>for _, sig := range signals\<close>.
\<close>

fun register_each :: "'w HandlerFunc \<Rightarrow> os_Signal list \<Rightarrow> 'w Handlers \<Rightarrow> 'w Handlers" where
  "register_each handler [] s = s"
| "register_each handler (sig # signals) s =
     register_each handler signals
       (case handlers s sig of
          Some hs \<Rightarrow> s\<lparr>handlers := (handlers s)(sig \<mapsto> hs @ [handler])\<rparr>
        | None \<Rightarrow> s\<lparr>handlers := (handlers s)(sig \<mapsto> [handler])\<rparr>)"

definition RegisterSignalHandler ::
  "'w Handlers \<Rightarrow> 'w HandlerFunc \<Rightarrow> os_Signal list \<Rightarrow> 'w Handlers" where
  "RegisterSignalHandler s handler signals =
     (if length signals = 0
      then s\<lparr>handlers := (handlers s)(anySignal \<mapsto> index_handlers s anySignal @ [handler])\<rparr>
      else register_each handler signals s)"

text \<open>
  \<open>func (s *Handlers) RegisterTerminationProcedure(fn TerminationFunc, message string)\<close>:
  the procedure is appended first, the debug line is logged afterwards, so the new
  state exists also when the log call panics.
\<close>

definition RegisterTerminationProcedure ::
  "'w Handlers \<Rightarrow> 'w TerminationFunc \<Rightarrow> string \<Rightarrow> 'w \<Rightarrow> 'w Handlers \<times> (panic + 'w)" where
  "RegisterTerminationProcedure s f msg w =
     (let s' = s\<lparr>terminationProcedures :=
                   terminationProcedures s @ [\<lparr>fn = f, message = msg\<rparr>]\<rparr>
      in (s', log_Debug s' [Str ''registered termination procedure for: '', Str msg] w))"

text \<open>
  \<open>func (s *Handlers) runTerminationProcedures(sig os.Signal) int\<close>.
  \<open>range_terminationProcedures\<close> is its loop, with the local variable \<open>code\<close>.
\<close>

fun range_terminationProcedures ::
  "'w Handlers \<Rightarrow> 'w terminationProcedure list \<Rightarrow> os_Signal \<Rightarrow> int \<Rightarrow> 'w \<Rightarrow> panic + int \<times> 'w" where
  "range_terminationProcedures s [] sig code w = Inr (code, w)"
| "range_terminationProcedures s (proc # procs) sig code w =
     (case log_Info s [Str (message proc)] w of
        Inl p \<Rightarrow> Inl p
      | Inr w1 \<Rightarrow>
          (case fn proc sig w1 of
             (None, w2) \<Rightarrow> range_terminationProcedures s procs sig code w2
           | (Some e, w2) \<Rightarrow>
               (case log_Info s [Str ''error while running termination procedure: '', Err e] w2 of
                  Inl p \<Rightarrow> Inl p
                | Inr w3 \<Rightarrow>
                    range_terminationProcedures s procs sig
                      (if code = 0 then getCodeFromError (Some e) 1 else code) w3)))"

definition runTerminationProcedures :: "'w Handlers \<Rightarrow> os_Signal \<Rightarrow> 'w \<Rightarrow> panic + int \<times> 'w" where
  "runTerminationProcedures s sig w =
     (if length (terminationProcedures s) = 0
      then and_then (log_Info s [Str ''nothing to do before termination''] w) (\<lambda>w1. Inr (0, w1))
      else and_then (range_terminationProcedures s (terminationProcedures s) sig 0 w)
             (\<lambda>(code, w1).
                and_then (log_Info s [Str ''all termination procedures are done''] w1)
                  (\<lambda>w2. Inr (code, w2))))"

text \<open>\<open>func (s *Handlers) handleTerminationSignals(sig os.Signal)\<close>\<close>

definition handleTerminationSignals :: "'w Handlers \<Rightarrow> os_Signal \<Rightarrow> 'w \<Rightarrow> 'w stopped + 'w" where
  "handleTerminationSignals s sig w =
     (case runTerminationProcedures s sig w of
        Inl p \<Rightarrow> Inl (panicked p)
      | Inr (code, w1) \<Rightarrow>
          (case log_Info s [Str ''bye''] w1 of
             Inl p \<Rightarrow> Inl (panicked p)
           | Inr w2 \<Rightarrow> exit s code w2))"

text \<open>The call \<open>handle(target)\<close> of a function value held by the registry of \<open>s\<close>.\<close>

fun call_HandlerFunc ::
  "'w Handlers \<Rightarrow> 'w HandlerFunc \<Rightarrow> os_Signal \<Rightarrow> 'w \<Rightarrow> 'w stopped + 'w" where
  "call_HandlerFunc s (Func f) target w = Inr (f target w)"
| "call_HandlerFunc s handleTerminationSignals_value target w = handleTerminationSignals s target w"

text \<open>The loop \<open>for _, handle := range hs { handle(target) }\<close>.\<close>

fun range_HandlerFuncs ::
  "'w Handlers \<Rightarrow> 'w HandlerFunc list \<Rightarrow> os_Signal \<Rightarrow> 'w \<Rightarrow> 'w stopped + 'w" where
  "range_HandlerFuncs s [] target w = Inr w"
| "range_HandlerFuncs s (handle # hs) target w =
     (case call_HandlerFunc s handle target w of
        Inl p \<Rightarrow> Inl p
      | Inr w1 \<Rightarrow> range_HandlerFuncs s hs target w1)"

text \<open>
  The loop \<open>for sig, handlers := range s.handlers\<close> of \<open>handleSignal\<close>. Go visits the keys
  of a map once each, in an order it does not fix: the order is the parameter \<open>ks\<close>, a
  list of the keys of the registry. A key that is not the target logs a debug line.
\<close>

fun range_handlers ::
  "'w Handlers \<Rightarrow> os_Signal list \<Rightarrow> os_Signal \<Rightarrow> 'w \<Rightarrow> 'w stopped + 'w" where
  "range_handlers s [] target w = Inr w"
| "range_handlers s (sig # ks) target w =
     (if sig \<noteq> target
      then (case log_Debug s [Str ''no handler found for signal: '', Sig target] w of
              Inl p \<Rightarrow> Inl (panicked p)
            | Inr w1 \<Rightarrow> range_handlers s ks target w1)
      else (case range_HandlerFuncs s (index_handlers s sig) target w of
              Inl p \<Rightarrow> Inl p
            | Inr w1 \<Rightarrow> range_handlers s ks target w1))"

text \<open>\<open>func (s *Handlers) handleSignal(target os.Signal)\<close>\<close>

definition handleSignal ::
  "'w Handlers \<Rightarrow> os_Signal list \<Rightarrow> os_Signal \<Rightarrow> 'w \<Rightarrow> 'w stopped + 'w" where
  "handleSignal s ks target w =
     and_then (range_HandlerFuncs s (index_handlers s anySignal) target w)
       (\<lambda>w1. range_handlers s ks target w1)"

text \<open>\<open>func (s *Handlers) setExit(e func(int))\<close> and \<open>func (s *Handlers) SetLogger(l Logger)\<close>\<close>

definition setExit :: "'w Handlers \<Rightarrow> (int \<Rightarrow> 'w \<Rightarrow> 'w stopped + 'w) \<Rightarrow> 'w Handlers" where
  "setExit s e = s\<lparr>exit := e\<rparr>"

definition SetLogger :: "'w Handlers \<Rightarrow> 'w Logger option \<Rightarrow> 'w Handlers" where
  "SetLogger s l = s\<lparr>log := l\<rparr>"

text \<open>
  \<open>func (s *Handlers) installTerminationHandlers()\<close> and
  \<open>func NewHandlers(terminationSignals ...os.Signal) *Handlers\<close>. What \<open>log.Println\<close> of
  Go's standard library does to the world is a parameter.
\<close>

definition installTerminationHandlers :: "'w Handlers \<Rightarrow> 'w Handlers" where
  "installTerminationHandlers s =
     RegisterSignalHandler s handleTerminationSignals_value (terminationSignals s)"

definition NewHandlers :: "(arg list \<Rightarrow> 'w \<Rightarrow> 'w) \<Rightarrow> os_Signal list \<Rightarrow> 'w Handlers" where
  "NewHandlers log_Println signals =
     (let ts = (if length signals = 0 then DefaultTerminationSignals else signals);
          h = \<lparr>log = Some (stdLogger log_Println), exit = os_Exit, handlers = Map.empty,
               terminationSignals = ts, terminationProcedures = []\<rparr>;
          h1 = h\<lparr>handlers := (handlers h)(anySignal \<mapsto> [])\<rparr>
      in installTerminationHandlers h1)"

text \<open>
  \<open>func (s *Handlers) StartListen() context.CancelFunc\<close>. The channel \<open>c\<close> it makes is
  described by whether \<open>signal.Notify\<close> still relays to it and whether it is closed.
  The goroutine that reads the channel is not modelled. \<open>StartListen_cancel\<close> is the
  function it returns: \<open>signal.Stop(c)\<close>, then \<open>close(c)\<close>, which panics on a channel
  that is already closed.
\<close>

record channel =
  notified :: bool
  closed :: bool

definition StartListen :: "'w Handlers \<Rightarrow> 'w \<Rightarrow> panic + channel \<times> 'w" where
  "StartListen s w =
     and_then (log_Debug s [Str ''start listening to all signals''] w)
       (\<lambda>w1. Inr (\<lparr>notified = True, closed = False\<rparr>, w1))"

definition StartListen_cancel :: "channel \<Rightarrow> panic + channel" where
  "StartListen_cancel c =
     (let c1 = c\<lparr>notified := False\<rparr>
      in if closed c1 then Inl close_of_closed_channel else Inr (c1\<lparr>closed := True\<rparr>))"

section \<open>Notions used to state the properties\<close>

text \<open>
  A history of registrations: the calls \<open>s.RegisterSignalHandler(handler, signals...)\<close>
  made one after the other, oldest first.
\<close>

fun register_all :: "('w HandlerFunc \<times> os_Signal list) list \<Rightarrow> 'w Handlers \<Rightarrow> 'w Handlers" where
  "register_all [] s = s"
| "register_all ((handler, signals) # regs) s =
     register_all regs (RegisterSignalHandler s handler signals)"

text \<open>
  The callbacks that a history registers under the key \<open>x\<close>, oldest first: a call
  without signals registers for the wildcard key, a call with signals registers once
  for every occurrence of a signal.
\<close>

fun registered_for :: "os_Signal \<Rightarrow> ('h \<times> os_Signal list) list \<Rightarrow> 'h list" where
  "registered_for x [] = []"
| "registered_for x ((handler, signals) # regs) =
     (if signals = [] then (if x = anySignal then [handler] else [])
      else map (\<lambda>sig. handler) (filter (\<lambda>sig. sig = x) signals))
     @ registered_for x regs"

text \<open>
  What \<open>n\<close> debug lines "no handler found for signal: target" do to the world when the
  logger is \<open>l\<close>: \<open>handleSignal\<close> logs one for every key that is not the target.
\<close>

fun debug_lines :: "'w Logger \<Rightarrow> nat \<Rightarrow> os_Signal \<Rightarrow> 'w \<Rightarrow> 'w" where
  "debug_lines l 0 target w = w"
| "debug_lines l (Suc n) target w =
     debug_lines l n target (Debug l [Str ''no handler found for signal: '', Sig target] w)"

text \<open>
  The states of a \<open>Handlers\<close> that can be reached: construction, then any of the
  operations that change the aggregate, the unexported \<open>setExit\<close> of the tests included.
  Dispatching a signal and running the pipeline change the world only, not the
  aggregate.
\<close>

inductive reachable :: "'w Handlers \<Rightarrow> bool" where
  reachable_NewHandlers: "reachable (NewHandlers log_Println signals)"
| reachable_RegisterSignalHandler:
    "reachable s \<Longrightarrow> reachable (RegisterSignalHandler s handler signals)"
| reachable_RegisterTerminationProcedure:
    "reachable s \<Longrightarrow> reachable (fst (RegisterTerminationProcedure s f msg w))"
| reachable_SetLogger: "reachable s \<Longrightarrow> reachable (SetLogger s l)"
| reachable_setExit: "reachable s \<Longrightarrow> reachable (setExit s e)"

section \<open>Callbacks of the test suite\<close>

text \<open>
  The tests of the package observe the order of calls through closures that append to
  a captured string (\<open>called += "a1 "\<close>) and through an exit function that records its
  argument and returns. Here the world is the list of the pieces appended so far.
\<close>

definition called :: "string \<Rightarrow> os_Signal \<Rightarrow> string list \<Rightarrow> string list" where
  "called name sig w = w @ [name]"

definition exit_recorder :: "int \<Rightarrow> string list \<Rightarrow> string list stopped + string list" where
  "exit_recorder code w =
     Inr (w @ [if code = 0 then ''exit 0'' else if code = 1 then ''exit 1'' else ''exit other''])"

section \<open>Basic facts\<close>

lemma and_then_Inr [simp]: "and_then (Inr a) f = f a"
  by (simp add: and_then_def)

lemma and_then_Inl [simp]: "and_then (Inl p) f = Inl p"
  by (simp add: and_then_def)

lemma setExit_fields [simp]:
  "log (setExit s e) = log s"
  "exit (setExit s e) = e"
  "handlers (setExit s e) = handlers s"
  "terminationSignals (setExit s e) = terminationSignals s"
  "terminationProcedures (setExit s e) = terminationProcedures s"
  by (simp_all add: setExit_def)

lemma SetLogger_fields [simp]:
  "log (SetLogger s l) = l"
  "exit (SetLogger s l) = exit s"
  "handlers (SetLogger s l) = handlers s"
  "terminationSignals (SetLogger s l) = terminationSignals s"
  "terminationProcedures (SetLogger s l) = terminationProcedures s"
  by (simp_all add: SetLogger_def)

lemma RegisterTerminationProcedure_fields [simp]:
  "log (fst (RegisterTerminationProcedure s f msg w)) = log s"
  "exit (fst (RegisterTerminationProcedure s f msg w)) = exit s"
  "handlers (fst (RegisterTerminationProcedure s f msg w)) = handlers s"
  "terminationSignals (fst (RegisterTerminationProcedure s f msg w)) = terminationSignals s"
  "terminationProcedures (fst (RegisterTerminationProcedure s f msg w))
     = terminationProcedures s @ [\<lparr>fn = f, message = msg\<rparr>]"
  by (simp_all add: RegisterTerminationProcedure_def Let_def)

subsection \<open>Registration\<close>

lemma register_each_fields [simp]:
  "log (register_each h sigs s) = log s"
  "exit (register_each h sigs s) = exit s"
  "terminationSignals (register_each h sigs s) = terminationSignals s"
  "terminationProcedures (register_each h sigs s) = terminationProcedures s"
  by (induction sigs arbitrary: s) (simp_all split: option.splits)

lemma index_handlers_register_each:
  "index_handlers (register_each h sigs s) x
     = index_handlers s x @ map (\<lambda>sig. h) (filter (\<lambda>sig. sig = x) sigs)"
  by (induction sigs arbitrary: s) (auto simp: index_handlers_def split: option.splits)

lemma dom_register_each:
  "dom (handlers (register_each h sigs s)) = dom (handlers s) \<union> set sigs"
  by (induction sigs arbitrary: s) (auto split: option.splits)

lemma RegisterSignalHandler_fields [simp]:
  "log (RegisterSignalHandler s h sigs) = log s"
  "exit (RegisterSignalHandler s h sigs) = exit s"
  "terminationSignals (RegisterSignalHandler s h sigs) = terminationSignals s"
  "terminationProcedures (RegisterSignalHandler s h sigs) = terminationProcedures s"
  by (simp_all add: RegisterSignalHandler_def)

lemma index_handlers_RegisterSignalHandler:
  "index_handlers (RegisterSignalHandler s h sigs) x
     = index_handlers s x @ registered_for x [(h, sigs)]"
proof (cases "sigs = []")
  case True
  then show ?thesis by (simp add: RegisterSignalHandler_def index_handlers_def)
next
  case False
  then show ?thesis by (simp add: RegisterSignalHandler_def index_handlers_register_each)
qed

lemma dom_RegisterSignalHandler:
  "dom (handlers (RegisterSignalHandler s h sigs))
     = dom (handlers s) \<union> (if sigs = [] then {anySignal} else set sigs)"
  by (auto simp: RegisterSignalHandler_def dom_register_each)

lemma register_all_fields [simp]:
  "log (register_all regs s) = log s"
  "exit (register_all regs s) = exit s"
  "terminationSignals (register_all regs s) = terminationSignals s"
  "terminationProcedures (register_all regs s) = terminationProcedures s"
  by (induction regs s rule: register_all.induct) simp_all

lemma index_handlers_register_all:
  "index_handlers (register_all regs s) x = index_handlers s x @ registered_for x regs"
  by (induction regs s rule: register_all.induct)
     (simp_all add: index_handlers_RegisterSignalHandler del: registered_for.simps(2), simp)

lemma registered_for_map:
  "registered_for x (map (\<lambda>(f, sigs). (g f, sigs)) regs) = map g (registered_for x regs)"
  by (induction regs) (auto simp: comp_def)

subsection \<open>Construction\<close>

lemma NewHandlers_log [simp]: "log (NewHandlers p sigs) = Some (stdLogger p)"
  by (simp add: NewHandlers_def installTerminationHandlers_def Let_def)

lemma NewHandlers_exit [simp]: "exit (NewHandlers p sigs) = os_Exit"
  by (simp add: NewHandlers_def installTerminationHandlers_def Let_def)

lemma NewHandlers_terminationProcedures [simp]:
  "terminationProcedures (NewHandlers p sigs) = []"
  by (simp add: NewHandlers_def installTerminationHandlers_def Let_def)

lemma NewHandlers_default_handlers:
  "handlers (NewHandlers p []) =
     [anySignal \<mapsto> [], SIGTERM \<mapsto> [handleTerminationSignals_value],
      SIGINT \<mapsto> [handleTerminationSignals_value]]"
  by (simp add: NewHandlers_def installTerminationHandlers_def RegisterSignalHandler_def Let_def
      DefaultTerminationSignals_def SIGTERM_def SIGINT_def)

lemma NewHandlers_nil_handlers:
  "handlers (NewHandlers p [nil_Signal]) =
     [anySignal \<mapsto> [], nil_Signal \<mapsto> [handleTerminationSignals_value]]"
  by (simp add: NewHandlers_def installTerminationHandlers_def RegisterSignalHandler_def Let_def)

lemma NewHandlers_anySignal: "anySignal \<in> dom (handlers (NewHandlers p sigs))"
  by (simp add: NewHandlers_def installTerminationHandlers_def Let_def dom_RegisterSignalHandler)

lemma NewHandlers_wildcard_empty:
  assumes "anySignal \<notin> set sigs"
  shows "handlers (NewHandlers p sigs) anySignal = Some []"
proof -
  let ?ts = "if length sigs = 0 then DefaultTerminationSignals else sigs"
  have n: "anySignal \<notin> set ?ts"
    using assms by (simp add: DefaultTerminationSignals_def SIGTERM_def SIGINT_def)
  have ne: "?ts \<noteq> []" by (simp add: DefaultTerminationSignals_def)
  define h1 :: "'a Handlers" where "h1 = \<lparr>log = Some (stdLogger p), exit = os_Exit,
      handlers = [anySignal \<mapsto> []], terminationSignals = ?ts, terminationProcedures = []\<rparr>"
  have eq: "NewHandlers p sigs = RegisterSignalHandler h1 handleTerminationSignals_value ?ts"
    by (simp add: NewHandlers_def installTerminationHandlers_def Let_def h1_def)
  have "index_handlers h1 anySignal = []" by (simp add: index_handlers_def h1_def)
  moreover have "registered_for anySignal [(handleTerminationSignals_value :: 'a HandlerFunc, ?ts)] = []"
    using n ne by (auto simp: filter_empty_conv)
  ultimately have "index_handlers (NewHandlers p sigs) anySignal = []"
    unfolding eq index_handlers_RegisterSignalHandler by simp
  moreover have "anySignal \<in> dom (handlers (NewHandlers p sigs))" by (rule NewHandlers_anySignal)
  ultimately show ?thesis by (auto simp: index_handlers_def)
qed

lemma reachable_anySignal:
  assumes "reachable s"
  shows "anySignal \<in> dom (handlers s)"
  using assms
proof (induction rule: reachable.induct)
  case (reachable_NewHandlers log_Println signals)
  show ?case by (rule NewHandlers_anySignal)
next
  case (reachable_RegisterSignalHandler s handler signals)
  then show ?case by (simp add: dom_RegisterSignalHandler)
next
  case (reachable_RegisterTerminationProcedure s f msg w)
  then show ?case by simp
next
  case (reachable_SetLogger s l)
  then show ?case by simp
next
  case (reachable_setExit s e)
  then show ?case by simp
qed

subsection \<open>Dispatch\<close>

lemma range_HandlerFuncs_Func:
  "range_HandlerFuncs s (map Func fs) target w = Inr (fold (\<lambda>f. f target) fs w)"
  by (induction fs arbitrary: w) simp_all

lemma index_handlers_cong:
  assumes "handlers s = handlers s'"
  shows "index_handlers s x = index_handlers s' x"
  using assms by (simp add: index_handlers_def)

text \<open>
  What construction leaves in the registry: the termination handler, once for every
  occurrence of a signal in the list of termination signals, and nothing else.
\<close>

lemma terminationSignals_NewHandlers:
  "terminationSignals (NewHandlers p sigs)
     = (if length sigs = 0 then DefaultTerminationSignals else sigs)"
  by (simp add: NewHandlers_def installTerminationHandlers_def Let_def)

lemma index_handlers_NewHandlers:
  "index_handlers (NewHandlers p sigs) x
     = map (\<lambda>sig. handleTerminationSignals_value)
         (filter (\<lambda>sig. sig = x) (terminationSignals (NewHandlers p sigs)))"
proof -
  let ?ts = "if length sigs = 0 then DefaultTerminationSignals else sigs"
  have ne: "?ts \<noteq> []" by (simp add: DefaultTerminationSignals_def)
  define h1 :: "'a Handlers" where "h1 = \<lparr>log = Some (stdLogger p), exit = os_Exit,
      handlers = [anySignal \<mapsto> []], terminationSignals = ?ts, terminationProcedures = []\<rparr>"
  have eq: "NewHandlers p sigs = RegisterSignalHandler h1 handleTerminationSignals_value ?ts"
    by (simp add: NewHandlers_def installTerminationHandlers_def Let_def h1_def)
  have "index_handlers h1 x = []" by (simp add: index_handlers_def h1_def)
  then have "index_handlers (NewHandlers p sigs) x
      = registered_for x [(handleTerminationSignals_value :: 'a HandlerFunc, ?ts)]"
    unfolding eq index_handlers_RegisterSignalHandler by simp
  with ne show ?thesis by (simp add: terminationSignals_NewHandlers)
qed

text \<open>
  The loop over the registry when a logger is installed: debug lines for the keys
  visited before the target, the callbacks of the target, debug lines for the keys
  visited after it.
\<close>

lemma range_handlers_no_target:
  assumes "log s = Some l" and "target \<notin> set ks"
  shows "range_handlers s ks target w = Inr (debug_lines l (length ks) target w)"
  using assms(2) by (induction ks arbitrary: w) (auto simp: log_Debug_def assms(1))

lemma range_handlers_logged:
  assumes "log s = Some l" and "distinct ks"
  shows "range_handlers s ks target w =
     and_then (range_HandlerFuncs s (if target \<in> set ks then index_handlers s target else [])
                 target (debug_lines l (length (takeWhile (\<lambda>k. k \<noteq> target) ks)) target w))
       (\<lambda>w2. Inr (debug_lines l (length (tl (dropWhile (\<lambda>k. k \<noteq> target) ks))) target w2))"
  using assms(2)
proof (induction ks arbitrary: w)
  case Nil
  then show ?case by simp
next
  case (Cons k ks)
  show ?case
  proof (cases "k = target")
    case True
    with Cons.prems have notin: "target \<notin> set ks" by simp
    show ?thesis using True
      by (simp add: range_handlers_no_target[OF assms(1) notin] and_then_def split: sum.splits)
  next
    case False
    from Cons.prems have "distinct ks" by simp
    note IH = Cons.IH[OF this]
    show ?thesis using False
      by (simp add: IH log_Debug_def assms(1))
  qed
qed

lemma handleSignal_logged:
  assumes "log s = Some l" and "distinct ks" and "set ks = dom (handlers s)"
  shows "handleSignal s ks target w =
     and_then (range_HandlerFuncs s (index_handlers s anySignal) target w) (\<lambda>w1.
     and_then (range_HandlerFuncs s (index_handlers s target) target
                 (debug_lines l (length (takeWhile (\<lambda>k. k \<noteq> target) ks)) target w1)) (\<lambda>w2.
       Inr (debug_lines l (length (tl (dropWhile (\<lambda>k. k \<noteq> target) ks))) target w2)))"
proof -
  have absent: "target \<notin> set ks \<Longrightarrow> index_handlers s target = []"
    using assms(3) by (auto simp: index_handlers_def split: option.splits)
  have "(if target \<in> set ks then index_handlers s target else []) = index_handlers s target"
    using absent by simp
  then show ?thesis
    by (simp add: handleSignal_def range_handlers_logged[OF assms(1) assms(2)])
qed

subsection \<open>The termination pipeline\<close>

lemma runTerminationProcedures_no_procedures:
  assumes "log s = Some l" and "terminationProcedures s = []"
  shows "runTerminationProcedures s sig w
           = Inr (0, Info l [Str ''nothing to do before termination''] w)"
  using assms by (simp add: runTerminationProcedures_def log_Info_def)

text \<open>A code that is not \<open>0\<close> is never replaced by the rest of the loop.\<close>

lemma range_terminationProcedures_keeps_code:
  assumes "log s = Some l" and "code \<noteq> 0"
  shows "\<exists>w'. range_terminationProcedures s procs sig code w = Inr (code, w')"
proof (induction procs arbitrary: w)
  case Nil
  show ?case by simp
next
  case (Cons proc procs)
  obtain r w2 where r: "fn proc sig (Info l [Str (message proc)] w) = (r, w2)"
    by (cases "fn proc sig (Info l [Str (message proc)] w)")
  show ?case
  proof (cases r)
    case None
    with r Cons.IH[of w2] show ?thesis using assms by (simp add: log_Info_def)
  next
    case (Some e)
    with r Cons.IH[of "Info l [Str ''error while running termination procedure: '', Err e] w2"]
    show ?thesis using assms by (simp add: log_Info_def)
  qed
qed

text \<open>
  A procedure that returns nil leaves the code as it is; the first error whose code is
  not \<open>0\<close> fixes the result of the loop.
\<close>

lemma range_terminationProcedures_nil:
  assumes "log s = Some l" and "fn proc sig (Info l [Str (message proc)] w) = (None, w2)"
  shows "range_terminationProcedures s (proc # procs) sig code w
           = range_terminationProcedures s procs sig code w2"
  using assms by (simp add: log_Info_def)

lemma range_terminationProcedures_first_error:
  assumes "log s = Some l"
    and "fn proc sig (Info l [Str (message proc)] w) = (Some e, w2)"
    and "getCodeFromError (Some e) 1 \<noteq> 0"
  shows "\<exists>w'. range_terminationProcedures s (proc # procs) sig 0 w
                = Inr (getCodeFromError (Some e) 1, w')"
  using assms range_terminationProcedures_keeps_code[OF assms(1) assms(3), of procs sig
      "Info l [Str ''error while running termination procedure: '', Err e] w2"]
  by (simp add: log_Info_def)

subsection \<open>The nil logger\<close>







subsection \<open>With a logger the pipeline returns\<close>

lemma range_terminationProcedures_returns:
  assumes "log s = Some l"
  shows "\<exists>r. range_terminationProcedures s procs sig code w = Inr r"
proof (induction procs arbitrary: code w)
  case Nil
  show ?case by simp
next
  case (Cons proc procs)
  obtain r w2 where r: "fn proc sig (Info l [Str (message proc)] w) = (r, w2)"
    by (cases "fn proc sig (Info l [Str (message proc)] w)")
  show ?case
  proof (cases r)
    case None
    with r Cons.IH[of code w2] show ?thesis using assms by (simp add: log_Info_def)
  next
    case (Some e)
    with r Cons.IH[of "if code = 0 then getCodeFromError (Some e) 1 else code"
        "Info l [Str ''error while running termination procedure: '', Err e] w2"]
    show ?thesis using assms by (simp add: log_Info_def)
  qed
qed

lemma runTerminationProcedures_returns:
  assumes "log s = Some l"
  shows "\<exists>r. runTerminationProcedures s sig w = Inr r"
proof (cases "terminationProcedures s = []")
  case True
  then show ?thesis using assms by (simp add: runTerminationProcedures_def log_Info_def)
next
  case False
  from range_terminationProcedures_returns[OF assms, of "terminationProcedures s" sig 0 w]
  obtain code w1 where "range_terminationProcedures s (terminationProcedures s) sig 0 w = Inr (code, w1)"
    by auto
  then show ?thesis using False assms by (simp add: runTerminationProcedures_def log_Info_def)
qed

section \<open>The exit carrier\<close>

text \<open>
  C9: for every integer code, \<open>WrapErrorWithCode(nil, code)\<close> returns the nil error.
\<close>

theorem WrapErrorWithCode_nil: "WrapErrorWithCode None code = None"
  by (simp add: WrapErrorWithCode_def)

text \<open>
  C5: wrapping a non-nil error with a code and extracting gives that code back, whatever
  the default (in particular code 42 with default -1); an error that is no carrier, and
  the nil error, give the caller's default (in particular 42).
\<close>

theorem getCodeFromError_WrapErrorWithCode:
  "getCodeFromError (WrapErrorWithCode (Some err) code) def = code
   \<and> getCodeFromError (WrapErrorWithCode (Some err) 42) (- 1) = 42
   \<and> getCodeFromError (Some (plainError msg)) def = def
   \<and> getCodeFromError (Some io_EOF) 42 = 42
   \<and> getCodeFromError None def = def"
  by (simp add: WrapErrorWithCode_def io_EOF_def)

text \<open>
  C10: wrapping an already wrapped error wraps it again, and extraction reads the
  outermost code.
\<close>

theorem getCodeFromError_rewrap:
  "WrapErrorWithCode (WrapErrorWithCode (Some e) a) b
     = Some (errorWithExitCode (Some (errorWithExitCode (Some e) a)) b)
   \<and> getCodeFromError (WrapErrorWithCode (WrapErrorWithCode (Some e) a) b) d = b"
  by (simp add: WrapErrorWithCode_def)

section \<open>Dispatch order\<close>

text \<open>
  C2, as the code has it. Take an aggregate made by \<open>NewHandlers\<close> with any non-nil
  logger and any termination procedures, then any history \<open>regs\<close> of client calls of
  \<open>RegisterSignalHandler\<close>, and let \<open>ks\<close> be any order in which the loop over the map may
  visit its keys. Dispatching a signal that is not a termination signal calls all
  wildcard callbacks in the order of their registration and then the callbacks
  registered for that signal in the order of their registration, and returns; the only
  other steps are the debug lines for the keys that are not the target. Dispatching a
  termination signal calls the wildcard callbacks in the order of their registration
  and then the termination handler, which \<open>NewHandlers\<close> registered first for that signal:
  it runs the pipeline, logs "bye" and calls \<open>os.Exit\<close> with the resolved code, so the
  process ends there and no callback that a client registered for that signal is
  called.
\<close>

theorem handleSignal_registration_order:
  assumes "s = register_all (map (\<lambda>(f, sigs). (Func f, sigs)) regs)
                 ((SetLogger (NewHandlers log_Println signals) (Some l))
                    \<lparr>terminationProcedures := procs\<rparr>)"
    and "anySignal \<notin> set signals"
    and "distinct ks" and "set ks = dom (handlers s)"
  shows "(target \<notin> set (terminationSignals s) \<longrightarrow>
            handleSignal s ks target w
              = Inr (debug_lines l (length (tl (dropWhile (\<lambda>k. k \<noteq> target) ks))) target
                  (fold (\<lambda>f. f target) (registered_for target regs)
                    (debug_lines l (length (takeWhile (\<lambda>k. k \<noteq> target) ks)) target
                      (fold (\<lambda>f. f target) (registered_for anySignal regs) w)))))
    \<and> (target \<in> set (terminationSignals s) \<longrightarrow>
          (\<exists>code w2.
             runTerminationProcedures s target
                 (debug_lines l (length (takeWhile (\<lambda>k. k \<noteq> target) ks)) target
                    (fold (\<lambda>f. f target) (registered_for anySignal regs) w))
               = Inr (code, w2)
             \<and> handleSignal s ks target w = Inl (exited code (Info l [Str ''bye''] w2))))"
proof -
  let ?s0 = "(SetLogger (NewHandlers log_Println signals) (Some l))\<lparr>terminationProcedures := procs\<rparr>"
  let ?w1 = "fold (\<lambda>f. f target) (registered_for anySignal regs) w"
  let ?w2 = "debug_lines l (length (takeWhile (\<lambda>k. k \<noteq> target) ks)) target ?w1"
  have lg: "log s = Some l" and ex: "exit s = os_Exit"
    and ts: "terminationSignals s = terminationSignals (NewHandlers log_Println signals)"
    using assms(1) by simp_all
  have base: "index_handlers ?s0 x = index_handlers (NewHandlers log_Println signals) x" for x
    by (rule index_handlers_cong) simp
  have any_ts: "anySignal \<notin> set (terminationSignals (NewHandlers log_Println signals))"
    using assms(2)
    by (simp add: terminationSignals_NewHandlers DefaultTerminationSignals_def SIGTERM_def SIGINT_def)
  have wild: "index_handlers s anySignal = map Func (registered_for anySignal regs)"
  proof -
    from any_ts
    have "filter (\<lambda>sig. sig = anySignal) (terminationSignals (NewHandlers log_Println signals)) = []"
      by (auto simp: filter_empty_conv)
    then show ?thesis
      by (simp add: assms(1) index_handlers_register_all registered_for_map base
          index_handlers_NewHandlers)
  qed
  have spec: "index_handlers s target
      = map (\<lambda>sig. handleTerminationSignals_value)
          (filter (\<lambda>sig. sig = target) (terminationSignals s))
        @ map Func (registered_for target regs)"
    by (simp add: assms(1) index_handlers_register_all registered_for_map base
        index_handlers_NewHandlers terminationSignals_NewHandlers)
  have disp: "handleSignal s ks target w =
     and_then (range_HandlerFuncs s (index_handlers s target) target ?w2) (\<lambda>w2.
       Inr (debug_lines l (length (tl (dropWhile (\<lambda>k. k \<noteq> target) ks))) target w2))"
    by (simp add: handleSignal_logged[OF lg assms(3) assms(4)] wild range_HandlerFuncs_Func)
  have A: "handleSignal s ks target w
              = Inr (debug_lines l (length (tl (dropWhile (\<lambda>k. k \<noteq> target) ks))) target
                  (fold (\<lambda>f. f target) (registered_for target regs) ?w2))"
    if "target \<notin> set (terminationSignals s)"
  proof -
    from that have "filter (\<lambda>sig. sig = target) (terminationSignals s) = []"
      by (auto simp: filter_empty_conv)
    with spec have "index_handlers s target = map Func (registered_for target regs)" by simp
    then show ?thesis by (simp add: disp range_HandlerFuncs_Func)
  qed
  have B: "\<exists>code w2. runTerminationProcedures s target ?w2 = Inr (code, w2)
             \<and> handleSignal s ks target w = Inl (exited code (Info l [Str ''bye''] w2))"
    if "target \<in> set (terminationSignals s)"
  proof -
    from that have "filter (\<lambda>sig. sig = target) (terminationSignals s) \<noteq> []"
      by (auto simp: filter_empty_conv)
    then obtain x rest where f: "filter (\<lambda>sig. sig = target) (terminationSignals s) = x # rest"
      by (cases "filter (\<lambda>sig. sig = target) (terminationSignals s)") auto
    from runTerminationProcedures_returns[OF lg, of target ?w2]
    obtain code w2 where r: "runTerminationProcedures s target ?w2 = Inr (code, w2)" by auto
    have "handleTerminationSignals s target ?w2 = Inl (exited code (Info l [Str ''bye''] w2))"
      by (simp add: handleTerminationSignals_def r log_Info_def lg ex os_Exit_def)
    then have "handleSignal s ks target w = Inl (exited code (Info l [Str ''bye''] w2))"
      by (simp add: disp spec f)
    with r show ?thesis by blast
  qed
  from A B show ?thesis by blast
qed

text \<open>
  The order test of the package: two callbacks for \<open>SIGUSR1\<close>, then two wildcard
  callbacks, on \<open>NewHandlers(nil)\<close>. Dispatching \<open>SIGUSR1\<close> calls \<open>a1 a2 1 2\<close>; dispatching
  the termination signal of that aggregate calls \<open>a1 a2\<close> and ends the process with
  status 0.
\<close>

theorem handleSignal_registration_order_witness:
  "anySignal \<notin> set [nil_Signal]
   \<and> distinct [SIGUSR1, anySignal, nil_Signal]
   \<and> set [SIGUSR1, anySignal, nil_Signal]
       = dom (handlers (register_all
               (map (\<lambda>(f, sigs). (Func f, sigs))
                  [(called ''1 '', [SIGUSR1]), (called ''2 '', [SIGUSR1]),
                   (called ''a1 '', []), (called ''a2 '', [])])
               ((SetLogger (NewHandlers (\<lambda>args w. w) [nil_Signal]) (Some (stdLogger (\<lambda>args w. w))))
                  \<lparr>terminationProcedures := []\<rparr>)))
   \<and> SIGUSR1 \<notin> set (terminationSignals (register_all
               (map (\<lambda>(f, sigs). (Func f, sigs))
                  [(called ''1 '', [SIGUSR1]), (called ''2 '', [SIGUSR1]),
                   (called ''a1 '', []), (called ''a2 '', [])])
               ((SetLogger (NewHandlers (\<lambda>args w. w) [nil_Signal]) (Some (stdLogger (\<lambda>args w. w))))
                  \<lparr>terminationProcedures := []\<rparr>)))
   \<and> handleSignal (register_all
               (map (\<lambda>(f, sigs). (Func f, sigs))
                  [(called ''1 '', [SIGUSR1]), (called ''2 '', [SIGUSR1]),
                   (called ''a1 '', []), (called ''a2 '', [])])
               ((SetLogger (NewHandlers (\<lambda>args w. w) [nil_Signal]) (Some (stdLogger (\<lambda>args w. w))))
                  \<lparr>terminationProcedures := []\<rparr>))
        [SIGUSR1, anySignal, nil_Signal] SIGUSR1 [] = Inr [''a1 '', ''a2 '', ''1 '', ''2 '']
   \<and> nil_Signal \<in> set (terminationSignals (register_all
               (map (\<lambda>(f, sigs). (Func f, sigs))
                  [(called ''1 '', [SIGUSR1]), (called ''2 '', [SIGUSR1]),
                   (called ''a1 '', []), (called ''a2 '', [])])
               ((SetLogger (NewHandlers (\<lambda>args w. w) [nil_Signal]) (Some (stdLogger (\<lambda>args w. w))))
                  \<lparr>terminationProcedures := []\<rparr>)))
   \<and> handleSignal (register_all
               (map (\<lambda>(f, sigs). (Func f, sigs))
                  [(called ''1 '', [SIGUSR1]), (called ''2 '', [SIGUSR1]),
                   (called ''a1 '', []), (called ''a2 '', [])])
               ((SetLogger (NewHandlers (\<lambda>args w. w) [nil_Signal]) (Some (stdLogger (\<lambda>args w. w))))
                  \<lparr>terminationProcedures := []\<rparr>))
        [SIGUSR1, anySignal, nil_Signal] nil_Signal [] = Inl (exited 0 [''a1 '', ''a2 ''])"
proof -
  let ?regs = "[(called ''1 '', [SIGUSR1]), (called ''2 '', [SIGUSR1]),
                   (called ''a1 '', []), (called ''a2 '', [])]"
  let ?s0 = "(SetLogger (NewHandlers (\<lambda>args w. w) [nil_Signal]) (Some (stdLogger (\<lambda>args w. w))))
                  \<lparr>terminationProcedures := []\<rparr> :: string list Handlers"
  let ?s = "register_all (map (\<lambda>(f, sigs). (Func f, sigs)) ?regs) ?s0"
  let ?ks = "[SIGUSR1, anySignal, nil_Signal]"
  have a: "anySignal \<notin> set [nil_Signal]" by simp
  have d: "distinct ?ks" by (simp add: SIGUSR1_def)
  have k: "set ?ks = dom (handlers ?s)"
    by (auto simp: NewHandlers_nil_handlers RegisterSignalHandler_def index_handlers_def
        SIGUSR1_def split: if_splits)
  have t: "terminationSignals ?s = [nil_Signal]"
    by (simp add: terminationSignals_NewHandlers del: register_all.simps)
  have t1: "SIGUSR1 \<notin> set (terminationSignals ?s)" unfolding t by (simp add: SIGUSR1_def)
  have t2: "nil_Signal \<in> set (terminationSignals ?s)" unfolding t by simp
  have p: "terminationProcedures ?s = []" by (simp del: register_all.simps)
  have lg: "log ?s = Some (stdLogger (\<lambda>args w. w))" by (simp del: register_all.simps)
  have dl: "debug_lines (stdLogger (\<lambda>args w. w)) n sig w = w" for n sig and w :: "string list"
    by (induction n) (simp_all add: stdLogger_def)
  have r: "runTerminationProcedures ?s sig w = Inr (0, w)" for sig w
    using runTerminationProcedures_no_procedures[OF lg p] by (simp add: stdLogger_def)
  have h1: "handleSignal ?s ?ks SIGUSR1 [] = Inr [''a1 '', ''a2 '', ''1 '', ''2 '']"
    using handleSignal_registration_order[OF refl a d k, of SIGUSR1 "[]"] t1
    by (simp add: dl called_def SIGUSR1_def stdLogger_def del: register_all.simps)
  let ?w = "debug_lines (stdLogger (\<lambda>args w. w))
              (length (takeWhile (\<lambda>k. k \<noteq> nil_Signal) ?ks)) nil_Signal
              (fold (\<lambda>f. f nil_Signal) (registered_for anySignal ?regs) [])"
  from handleSignal_registration_order[OF refl a d k, of nil_Signal "[]"] t2
  obtain code w2 where rr: "runTerminationProcedures ?s nil_Signal ?w = Inr (code, w2)"
    and hh: "handleSignal ?s ?ks nil_Signal []
               = Inl (exited code (Info (stdLogger (\<lambda>args w. w)) [Str ''bye''] w2))"
    by blast
  from rr[unfolded r] have c: "code = 0" and w2: "w2 = ?w"
    by (auto simp only: sum.inject prod.inject)
  have "?w = [''a1 '', ''a2 '']" by (simp add: called_def SIGUSR1_def stdLogger_def)
  with hh c w2 have h2: "handleSignal ?s ?ks nil_Signal [] = Inl (exited 0 [''a1 '', ''a2 ''])"
    by (simp add: stdLogger_def)
  from a d k t1 h1 t2 h2 show ?thesis by blast
qed

text \<open>
  The claim as stated fails on a callback that a client registers for \<open>SIGTERM\<close> after
  \<open>NewHandlers()\<close>: the dispatch of \<open>SIGTERM\<close> ends the process in the termination handler
  and the callback is never called, whatever the order of the keys. It also fails
  without a logger: after \<open>SetLogger(nil)\<close> the debug line for a key visited before
  \<open>SIGUSR1\<close> panics before the callback for \<open>SIGUSR1\<close> is called.
\<close>

theorem handleSignal_termination_signal_skips_client_callback:
  "handleSignal (RegisterSignalHandler (NewHandlers (\<lambda>args w. w) []) (Func (called ''usr'')) [SIGTERM])
      [anySignal, SIGTERM, SIGINT] SIGTERM [] = Inl (exited 0 [])
   \<and> handleSignal (RegisterSignalHandler (SetLogger (NewHandlers (\<lambda>args w. w) []) None)
                      (Func (called ''1 '')) [SIGUSR1])
      [anySignal, SIGTERM, SIGINT, SIGUSR1] SIGUSR1 [] = Inl (panicked nil_pointer_dereference)"
  by (simp add: handleSignal_def index_handlers_def NewHandlers_default_handlers
      RegisterSignalHandler_def handleTerminationSignals_def runTerminationProcedures_def
      log_Info_def log_Debug_def stdLogger_def os_Exit_def SIGTERM_def SIGINT_def SIGUSR1_def)

section \<open>Termination\<close>

text \<open>
  C4, as the code has it: when a logger is installed, running the pipeline without
  registered procedures returns the code 0, logs the line "nothing to do before
  termination" at info level and does not panic.
\<close>

theorem runTerminationProcedures_empty:
  assumes "log s = Some l" and "terminationProcedures s = []"
  shows "runTerminationProcedures s sig w
           = Inr (0, Info l [Str ''nothing to do before termination''] w)"
  using assms by (rule runTerminationProcedures_no_procedures)

theorem runTerminationProcedures_empty_witness:
  "log (NewHandlers (\<lambda>args w. w @ [args]) [])
      = Some (stdLogger (\<lambda>args w. w @ [args]))
   \<and> terminationProcedures (NewHandlers (\<lambda>args w. w @ [args]) []) = []
   \<and> runTerminationProcedures (NewHandlers (\<lambda>args w. w @ [args]) []) SIGINT []
        = Inr (0, [[Str ''nothing to do before termination'']])"
  using runTerminationProcedures_empty[of "NewHandlers (\<lambda>args w. w @ [args]) []"
      "stdLogger (\<lambda>args w. w @ [args])" SIGINT "[]"]
  by (simp add: stdLogger_def)

text \<open>
  Without the logger the claim fails: after \<open>SetLogger(nil)\<close> the pipeline without
  procedures panics at its log call instead of returning 0.
\<close>

theorem runTerminationProcedures_empty_nil_logger:
  "terminationProcedures (SetLogger (NewHandlers (\<lambda>args w. w) []) None) = []
   \<and> runTerminationProcedures (SetLogger (NewHandlers (\<lambda>args w. w) []) None)
        SIGINT ([] :: string list) = Inl nil_pointer_dereference"
  by (simp add: runTerminationProcedures_def log_Info_def)

text \<open>
  C3, as the code has it: take \<open>NewHandlers()\<close> without signals, any non-nil logger \<open>l\<close>,
  any exit function \<open>e\<close> (the one of the tests or \<open>os.Exit\<close>), any client callbacks \<open>regs\<close>
  for any signals and no termination procedure. The termination signals are the default
  ones; for each of them the pipeline returns the code 0, and dispatching it runs the
  wildcard callbacks of the client, then the termination handler, which logs two lines
  and calls \<open>e\<close> once, with 0; whatever follows happens only if \<open>e\<close> returns, and does not
  call \<open>e\<close> again.
\<close>

theorem default_termination_exits_once_with_zero:
  assumes "sig \<in> set DefaultTerminationSignals"
    and "s = register_all (map (\<lambda>(f, sigs). (Func f, sigs)) regs)
               (setExit (SetLogger (NewHandlers log_Println []) (Some l)) e)"
    and "distinct ks" and "set ks = dom (handlers s)"
  shows "terminationSignals s = [SIGTERM, SIGINT]
    \<and> runTerminationProcedures s sig w
        = Inr (0, Info l [Str ''nothing to do before termination''] w)
    \<and> handleSignal s ks sig w
        = and_then
            (e 0 (Info l [Str ''bye'']
                   (Info l [Str ''nothing to do before termination'']
                      (debug_lines l (length (takeWhile (\<lambda>k. k \<noteq> sig) ks)) sig
                         (fold (\<lambda>f. f sig) (registered_for anySignal regs) w)))))
            (\<lambda>w3. Inr (debug_lines l (length (tl (dropWhile (\<lambda>k. k \<noteq> sig) ks))) sig
                         (fold (\<lambda>f. f sig) (registered_for sig regs) w3)))"
proof -
  let ?s0 = "setExit (SetLogger (NewHandlers log_Println []) (Some l)) e"
  have lg: "log s = Some l" and p: "terminationProcedures s = []" and x: "exit s = e"
    using assms(2) by simp_all
  have ts: "terminationSignals s = [SIGTERM, SIGINT]"
    using assms(2) by (simp add: terminationSignals_NewHandlers DefaultTerminationSignals_def)
  have rtp: "runTerminationProcedures s sig w'
        = Inr (0, Info l [Str ''nothing to do before termination''] w')" for w'
    by (rule runTerminationProcedures_no_procedures[OF lg p])
  have tcall: "handleTerminationSignals s sig w'
        = e 0 (Info l [Str ''bye''] (Info l [Str ''nothing to do before termination''] w'))" for w'
    by (simp add: handleTerminationSignals_def rtp log_Info_def lg x)
  have i0: "index_handlers ?s0 anySignal = []"
    by (simp add: index_handlers_def NewHandlers_default_handlers SIGTERM_def SIGINT_def)
  from assms(1) have i1: "index_handlers ?s0 sig = [handleTerminationSignals_value]"
    by (auto simp: index_handlers_def NewHandlers_default_handlers DefaultTerminationSignals_def
        SIGTERM_def SIGINT_def)
  have wild: "index_handlers s anySignal = map Func (registered_for anySignal regs)"
    by (simp add: assms(2) index_handlers_register_all registered_for_map i0)
  have spec: "index_handlers s sig
      = handleTerminationSignals_value # map Func (registered_for sig regs)"
    by (simp add: assms(2) index_handlers_register_all registered_for_map i1)
  have "handleSignal s ks sig w
        = and_then
            (e 0 (Info l [Str ''bye'']
                   (Info l [Str ''nothing to do before termination'']
                      (debug_lines l (length (takeWhile (\<lambda>k. k \<noteq> sig) ks)) sig
                         (fold (\<lambda>f. f sig) (registered_for anySignal regs) w)))))
            (\<lambda>w3. Inr (debug_lines l (length (tl (dropWhile (\<lambda>k. k \<noteq> sig) ks))) sig
                         (fold (\<lambda>f. f sig) (registered_for sig regs) w3)))"
    by (simp add: handleSignal_logged[OF lg assms(3) assms(4)] wild spec range_HandlerFuncs_Func
        tcall and_then_def split: sum.splits)
  with ts rtp show ?thesis by simp
qed

text \<open>
  With a recording exit function, a client callback for \<open>SIGTERM\<close> and a wildcard
  callback, dispatching \<open>SIGTERM\<close> leaves exactly one exit record, with code 0; with
  \<open>os.Exit\<close> the process ends with status 0 after the wildcard callback.
\<close>

theorem default_termination_exits_once_with_zero_witness:
  "SIGTERM \<in> set DefaultTerminationSignals
   \<and> distinct [SIGINT, anySignal, SIGTERM]
   \<and> set [SIGINT, anySignal, SIGTERM]
       = dom (handlers (register_all
               (map (\<lambda>(f, sigs). (Func f, sigs)) [(called ''usr'', [SIGTERM]), (called ''all'', [])])
               (setExit (SetLogger (NewHandlers (\<lambda>args w. w) []) (Some (stdLogger (\<lambda>args w. w))))
                  exit_recorder)))
   \<and> handleSignal (register_all
               (map (\<lambda>(f, sigs). (Func f, sigs)) [(called ''usr'', [SIGTERM]), (called ''all'', [])])
               (setExit (SetLogger (NewHandlers (\<lambda>args w. w) []) (Some (stdLogger (\<lambda>args w. w))))
                  exit_recorder))
        [SIGINT, anySignal, SIGTERM] SIGTERM [] = Inr [''all'', ''exit 0'', ''usr'']
   \<and> set [SIGINT, anySignal, SIGTERM]
       = dom (handlers (register_all
               (map (\<lambda>(f, sigs). (Func f, sigs)) [(called ''usr'', [SIGTERM]), (called ''all'', [])])
               (setExit (SetLogger (NewHandlers (\<lambda>args w. w) []) (Some (stdLogger (\<lambda>args w. w))))
                  os_Exit)))
   \<and> handleSignal (register_all
               (map (\<lambda>(f, sigs). (Func f, sigs)) [(called ''usr'', [SIGTERM]), (called ''all'', [])])
               (setExit (SetLogger (NewHandlers (\<lambda>args w. w) []) (Some (stdLogger (\<lambda>args w. w))))
                  os_Exit))
        [SIGINT, anySignal, SIGTERM] SIGTERM [] = Inl (exited 0 [''all''])"
proof -
  let ?regs = "[(called ''usr'', [SIGTERM]), (called ''all'', [])]"
  let ?s = "\<lambda>e. register_all (map (\<lambda>(f, sigs). (Func f, sigs)) ?regs)
               (setExit (SetLogger (NewHandlers (\<lambda>args w. w) []) (Some (stdLogger (\<lambda>args w. w)))) e)"
  let ?ks = "[SIGINT, anySignal, SIGTERM]"
  have m: "SIGTERM \<in> set DefaultTerminationSignals" by (simp add: DefaultTerminationSignals_def)
  have d: "distinct ?ks" by (simp add: SIGINT_def SIGTERM_def)
  have k: "set ?ks = dom (handlers (?s e))" for e
    by (auto simp: NewHandlers_default_handlers RegisterSignalHandler_def index_handlers_def
        SIGINT_def SIGTERM_def split: if_splits)
  have h1: "handleSignal (?s exit_recorder) ?ks SIGTERM [] = Inr [''all'', ''exit 0'', ''usr'']"
    using default_termination_exits_once_with_zero[OF m refl d k[of exit_recorder], where w = "[]"]
    by (simp add: called_def exit_recorder_def SIGTERM_def SIGINT_def stdLogger_def
        del: register_all.simps)
  have h2: "handleSignal (?s os_Exit) ?ks SIGTERM [] = Inl (exited 0 [''all''])"
    using default_termination_exits_once_with_zero[OF m refl d k[of os_Exit], where w = "[]"]
    by (simp add: called_def os_Exit_def SIGTERM_def SIGINT_def stdLogger_def
        del: register_all.simps)
  from m d k[of exit_recorder] h1 k[of os_Exit] h2 show ?thesis by blast
qed

text \<open>
  Without the logger the claim fails: after \<open>NewHandlers()\<close> and \<open>SetLogger(nil)\<close>, with no
  termination procedure, the pipeline panics instead of returning 0 and the dispatch
  of \<open>SIGTERM\<close> panics before the exit function is called.
\<close>

theorem default_termination_nil_logger_panics:
  "terminationProcedures (SetLogger (NewHandlers (\<lambda>args w. w) []) None) = []
   \<and> terminationSignals (SetLogger (NewHandlers (\<lambda>args w. w) []) None) = [SIGTERM, SIGINT]
   \<and> runTerminationProcedures (SetLogger (NewHandlers (\<lambda>args w. w) []) None) SIGTERM
        ([] :: string list) = Inl nil_pointer_dereference
   \<and> handleSignal (SetLogger (NewHandlers (\<lambda>args w. w) []) None)
        [SIGTERM, anySignal, SIGINT] SIGTERM ([] :: string list)
        = Inl (panicked nil_pointer_dereference)"
  by (simp add: handleSignal_def index_handlers_def NewHandlers_default_handlers
      handleTerminationSignals_def runTerminationProcedures_def terminationSignals_NewHandlers
      DefaultTerminationSignals_def
      log_Info_def log_Debug_def SIGTERM_def SIGINT_def)

text \<open>
  C1, at an input where the code departs from it: the first procedure returns
  \<open>WrapErrorWithCode(io.EOF, 0)\<close>, an error that carries the code 0, and the second
  returns \<open>io.EOF\<close>. Both procedures are called, but the pipeline returns 1, the default
  for the second error, and not the code 0 carried by the first error: the loop reads
  \<open>code == 0\<close> as "no error yet".
\<close>

theorem runTerminationProcedures_zero_code_overridden:
  "getCodeFromError (WrapErrorWithCode (Some io_EOF) 0) 1 = 0
   \<and> runTerminationProcedures
       (fst (RegisterTerminationProcedure
          (fst (RegisterTerminationProcedure (NewHandlers (\<lambda>args w. w) [])
                 (\<lambda>sig w. (WrapErrorWithCode (Some io_EOF) 0, w @ [''1 ''])) [] []))
          (\<lambda>sig w. (Some io_EOF, w @ [''2 ''])) [] []))
       SIGTERM [] = Inr (1, [''1 '', ''2 ''])"
  by (simp add: runTerminationProcedures_def log_Info_def stdLogger_def WrapErrorWithCode_def
      io_EOF_def)

section \<open>The cancellation handle\<close>

text \<open>
  C6, at the input where the code departs from it: the first call of the function
  returned by \<open>StartListen\<close> stops the relay and closes the channel; the second call
  closes the closed channel again and panics.
\<close>

theorem StartListen_cancel_twice_panics:
  "StartListen (NewHandlers (\<lambda>args w. w) []) ([] :: string list)
       = Inr (\<lparr>notified = True, closed = False\<rparr>, [])
   \<and> StartListen_cancel \<lparr>notified = True, closed = False\<rparr>
       = Inr \<lparr>notified = False, closed = True\<rparr>
   \<and> StartListen_cancel \<lparr>notified = False, closed = True\<rparr> = Inl close_of_closed_channel"
  by (simp add: StartListen_def StartListen_cancel_def log_Debug_def stdLogger_def)

section \<open>The nil logger\<close>




section \<open>The wildcard key\<close>

text \<open>
  C8: in every state of the aggregate that is reachable by construction followed by any
  sequence of its operations, the registry has the wildcard key; right after
  construction its list of callbacks is empty (the sentinel is not among the
  termination signals a client can pass).
\<close>

theorem wildcard_key_present:
  assumes "reachable s"
  shows "anySignal \<in> dom (handlers s)
    \<and> (anySignal \<notin> set signals
         \<longrightarrow> handlers (NewHandlers log_Println signals) anySignal = Some [])"
  using reachable_anySignal[OF assms] NewHandlers_wildcard_empty by blast

theorem wildcard_key_present_witness:
  "reachable (RegisterSignalHandler (NewHandlers (\<lambda>args w. w) [])
               (Func (called ''1 '')) [SIGUSR1])
   \<and> anySignal \<in> dom (handlers (RegisterSignalHandler (NewHandlers (\<lambda>args w. w) [])
               (Func (called ''1 '')) [SIGUSR1]))
   \<and> anySignal \<notin> set [SIGUSR1]
   \<and> handlers (NewHandlers (\<lambda>args w. w) [SIGUSR1]) anySignal = Some []"
proof -
  have r: "reachable (RegisterSignalHandler (NewHandlers (\<lambda>args w. w) [])
               (Func (called ''1 '')) [SIGUSR1])"
    by (intro reachable.intros)
  have n: "anySignal \<notin> set [SIGUSR1]" by (simp add: SIGUSR1_def)
  from r n wildcard_key_present[OF r, of "[SIGUSR1]" "\<lambda>args w. w"]
  show ?thesis by blast
qed

end
